theory Spec2Isabelle
  imports Main "HOL-Library.AList"
begin

section \<open>JavaScript values\<close>

text \<open>
  The functions of \<^verbatim>\<open>src/lib/utils.js\<close> are dynamically typed: every argument is an
  arbitrary JavaScript value. The embedding therefore starts with the values themselves
  and with the language built-ins the source calls (\<^verbatim>\<open>Boolean\<close>, \<^verbatim>\<open>isNaN\<close>,
  \<^verbatim>\<open>parseFloat\<close>, \<^verbatim>\<open>parseInt\<close>, \<^verbatim>\<open>Object.keys\<close>, \<^verbatim>\<open>Object.assign\<close>), written after
  the ECMAScript definitions of these operations.

  Numbers. A Number is \<open>NaN\<close>, an infinity, a signed zero, or a finite non-zero value
  \<open>Dec neg ds n\<close> that stands for \<open>\<plusminus> 0.d\<^sub>1d\<^sub>2\<dots>d\<^sub>k \<times> 10\<^sup>n\<close>: the digits \<open>ds\<close> and the
  exponent \<open>n\<close> are the \<open>s\<close>, \<open>k\<close> and \<open>n\<close> of \<^verbatim>\<open>Number::toString\<close>. Values are exact
  decimals: the rounding of a long literal to the nearest binary double (and overflow
  to infinity) is not part of the model.

  Strings are lists of code units below 256. Objects are plain data objects that
  inherit from \<^verbatim>\<open>Object.prototype\<close>, given by the list of their own enumerable
  properties in enumeration order; functions, arrays, accessors and proxies are outside
  the model, so no property value is callable.
\<close>

datatype jsnum = NaN | Infty bool | Zero bool | Dec bool "nat list" int

datatype jsval =
    JUndefined
  | JNull
  | JBool bool
  | JNum jsnum
  | JStr string
  | JSymbol string
  | JBigInt int
  | JObj "(string \<times> jsval) list"

datatype error = TypeError


subsection \<open>Characters and digits\<close>

definition is_ws :: "char \<Rightarrow> bool" where
  "is_ws c = ((of_char c :: nat) \<in> {9, 10, 11, 12, 13, 32, 160})"

definition is_digit :: "char \<Rightarrow> bool" where
  "is_digit c = (48 \<le> (of_char c :: nat) \<and> (of_char c :: nat) \<le> 57)"

definition digit_val :: "char \<Rightarrow> nat" where
  "digit_val c = of_char c - 48"

definition digit_char :: "nat \<Rightarrow> char" where
  "digit_char d = char_of (48 + d)"

fun digits_of_nat :: "nat \<Rightarrow> nat list" where
  "digits_of_nat n = (if n < 10 then [n] else digits_of_nat (n div 10) @ [n mod 10])"

declare digits_of_nat.simps [simp del]

definition nat_of_digits :: "nat \<Rightarrow> nat list \<Rightarrow> nat" where
  "nat_of_digits b ds = foldl (\<lambda>a d. a * b + d) 0 ds"

definition show_nat :: "nat \<Rightarrow> string" where
  "show_nat n = map digit_char (digits_of_nat n)"

definition trim_start :: "string \<Rightarrow> string" where
  "trim_start s = dropWhile is_ws s"

definition trim :: "string \<Rightarrow> string" where
  "trim s = rev (dropWhile is_ws (rev (dropWhile is_ws s)))"

subsection \<open>Numeric literals\<close>

text \<open>\<open>mk_num neg ds n\<close> is the Number \<open>\<plusminus> 0.ds \<times> 10\<^sup>n\<close> for an arbitrary digit string:
  leading zeros are dropped (each lowers the exponent), trailing zeros are dropped, and
  an all-zero string is the zero of that sign.\<close>

definition mk_num :: "bool \<Rightarrow> nat list \<Rightarrow> int \<Rightarrow> jsnum" where
  "mk_num neg ds n =
     (let lead = takeWhile (\<lambda>d. d = 0) ds;
          body = rev (dropWhile (\<lambda>d. d = 0) (rev (dropWhile (\<lambda>d. d = 0) ds)))
      in if body = [] then Zero neg else Dec neg body (n - int (length lead)))"

definition nat_num :: "nat \<Rightarrow> jsnum" where
  "nat_num m = mk_num False (digits_of_nat m) (int (length (digits_of_nat m)))"

definition span_digits :: "string \<Rightarrow> nat list \<times> string" where
  "span_digits s = (map digit_val (takeWhile is_digit s), dropWhile is_digit s)"

text \<open>\<^verbatim>\<open>ExponentPart\<close>: \<^verbatim>\<open>e\<close> or \<^verbatim>\<open>E\<close>, an optional sign, at least one digit. When the
  digits are missing the exponent is not part of the literal.\<close>

definition scan_exponent :: "string \<Rightarrow> int \<times> string" where
  "scan_exponent s =
     (case s of
        [] \<Rightarrow> (0, s)
      | c # r \<Rightarrow>
          if c = CHR ''e'' \<or> c = CHR ''E'' then
            (let (neg, r') =
                   (case r of
                      [] \<Rightarrow> (False, r)
                    | d # r2 \<Rightarrow>
                        if d = CHR ''-'' then (True, r2)
                        else if d = CHR ''+'' then (False, r2)
                        else (False, r));
                 (ds, rest) = span_digits r'
             in if ds = [] then (0, s)
                else (if neg then - int (nat_of_digits 10 ds) else int (nat_of_digits 10 ds), rest))
          else (0, s))"

datatype unsigned_literal = UInfinity | UDecimal "nat list" "nat list" int

text \<open>The longest prefix of \<open>s\<close> that is a \<^verbatim>\<open>StrUnsignedDecimalLiteral\<close>
  (\<^verbatim>\<open>Infinity\<close>, \<^verbatim>\<open>digits . digits? exp?\<close>, \<^verbatim>\<open>. digits exp?\<close>, \<^verbatim>\<open>digits exp?\<close>), with the
  rest of the string; \<open>None\<close> when no prefix is one.\<close>

definition scan_unsigned :: "string \<Rightarrow> (unsigned_literal \<times> string) option" where
  "scan_unsigned s =
     (if take 8 s = ''Infinity'' then Some (UInfinity, drop 8 s)
      else
        (let (ip, r1) = span_digits s in
         case r1 of
           c # r2 \<Rightarrow>
             if c = CHR ''.'' then
               (let (fp, r3) = span_digits r2 in
                if ip = [] \<and> fp = [] then None
                else (let (ex, rest) = scan_exponent r3 in Some (UDecimal ip fp ex, rest)))
             else if ip = [] then None
             else (let (ex, rest) = scan_exponent r1 in Some (UDecimal ip [] ex, rest))
         | [] \<Rightarrow> if ip = [] then None else Some (UDecimal ip [] 0, [])))"

text \<open>\<^verbatim>\<open>StrDecimalLiteral\<close>: an optional sign and an unsigned literal.\<close>

definition scan_decimal :: "string \<Rightarrow> (jsnum \<times> string) option" where
  "scan_decimal s =
     (let (neg, r) =
            (case s of
               [] \<Rightarrow> (False, s)
             | c # r \<Rightarrow>
                 if c = CHR ''-'' then (True, r)
                 else if c = CHR ''+'' then (False, r)
                 else (False, s))
      in case scan_unsigned r of
           None \<Rightarrow> None
         | Some (UInfinity, rest) \<Rightarrow> Some (Infty neg, rest)
         | Some (UDecimal ip fp ex, rest) \<Rightarrow>
             Some (mk_num neg (ip @ fp) (int (length ip) + ex), rest))"

text \<open>\<^verbatim>\<open>NonDecimalIntegerLiteral\<close>: \<^verbatim>\<open>0x\<close>, \<^verbatim>\<open>0o\<close> or \<^verbatim>\<open>0b\<close> (either case) and at
  least one digit of that radix, nothing else.\<close>

definition radix_digit :: "char \<Rightarrow> nat option" where
  "radix_digit c =
     (let k = (of_char c :: nat) in
      if 48 \<le> k \<and> k \<le> 57 then Some (k - 48)
      else if 97 \<le> k \<and> k \<le> 102 then Some (k - 87)
      else if 65 \<le> k \<and> k \<le> 70 then Some (k - 55)
      else None)"

definition radix_literal :: "nat \<Rightarrow> string \<Rightarrow> nat option" where
  "radix_literal b s =
     (if s \<noteq> [] \<and> list_all (\<lambda>c. case radix_digit c of None \<Rightarrow> False | Some d \<Rightarrow> d < b) s
      then Some (nat_of_digits b (map (\<lambda>c. the (radix_digit c)) s))
      else None)"

definition non_decimal :: "string \<Rightarrow> nat option" where
  "non_decimal s =
     (case s of
        c0 # c1 # r \<Rightarrow>
          if c0 \<noteq> CHR ''0'' then None
          else if c1 = CHR ''x'' \<or> c1 = CHR ''X'' then radix_literal 16 r
          else if c1 = CHR ''o'' \<or> c1 = CHR ''O'' then radix_literal 8 r
          else if c1 = CHR ''b'' \<or> c1 = CHR ''B'' then radix_literal 2 r
          else None
      | _ \<Rightarrow> None)"

text \<open>\<^verbatim>\<open>StringToNumber\<close>: white space is trimmed on both sides; the empty string is
  \<open>+0\<close>; the whole rest must be one literal, else the result is \<open>NaN\<close>.\<close>

definition StringToNumber :: "string \<Rightarrow> jsnum" where
  "StringToNumber s =
     (let t = trim s in
      if t = [] then Zero False
      else case non_decimal t of
             Some m \<Rightarrow> nat_num m
           | None \<Rightarrow>
               (case scan_decimal t of
                  Some (n, []) \<Rightarrow> n
                | _ \<Rightarrow> NaN))"

text \<open>\<^verbatim>\<open>parseFloat\<close> on a string: leading white space is skipped and the longest prefix
  that is a \<^verbatim>\<open>StrDecimalLiteral\<close> is the value; \<open>NaN\<close> when there is none.\<close>

definition parseFloat_str :: "string \<Rightarrow> jsnum" where
  "parseFloat_str s =
     (case scan_decimal (trim_start s) of
        None \<Rightarrow> NaN
      | Some (n, _) \<Rightarrow> n)"

text \<open>\<^verbatim>\<open>parseInt(string, 10)\<close> on a string: leading white space, an optional sign, then
  the longest run of decimal digits; \<open>NaN\<close> when the run is empty. With radix 10 given,
  no \<^verbatim>\<open>0x\<close> prefix is recognised.\<close>

definition parseInt_str :: "string \<Rightarrow> jsnum" where
  "parseInt_str s =
     (let t = trim_start s;
          (neg, r) =
            (case t of
               [] \<Rightarrow> (False, t)
             | c # r \<Rightarrow>
                 if c = CHR ''-'' then (True, r)
                 else if c = CHR ''+'' then (False, r)
                 else (False, t));
          (ds, rest) = span_digits r
      in if ds = [] then NaN else mk_num neg ds (int (length ds)))"

subsection \<open>Conversions\<close>

text \<open>\<^verbatim>\<open>Number::toString\<close> (radix 10).\<close>

definition format_digits :: "nat list \<Rightarrow> int \<Rightarrow> string" where
  "format_digits ds n =
     (let k = int (length ds); cs = map digit_char ds in
      if - 6 < n \<and> n \<le> 21 then
        (if k \<le> n then cs @ replicate (nat (n - k)) (CHR ''0'')
         else if 0 < n then take (nat n) cs @ ''.'' @ drop (nat n) cs
         else ''0.'' @ replicate (nat (- n)) (CHR ''0'') @ cs)
      else
        (let e = n - 1;
             es = (if e < 0 then ''-'' else ''+'') @ show_nat (nat \<bar>e\<bar>)
         in if k = 1 then cs @ ''e'' @ es
            else take 1 cs @ ''.'' @ drop 1 cs @ ''e'' @ es))"

fun Number_toString :: "jsnum \<Rightarrow> string" where
  "Number_toString NaN = ''NaN''"
| "Number_toString (Zero neg) = ''0''"
| "Number_toString (Infty neg) = (if neg then ''-Infinity'' else ''Infinity'')"
| "Number_toString (Dec neg ds n) = (if neg then ''-'' else '''') @ format_digits ds n"

text \<open>\<^verbatim>\<open>ToPrimitive\<close> of a plain object. \<^verbatim>\<open>OrdinaryToPrimitive\<close> looks up \<^verbatim>\<open>valueOf\<close> and
  \<^verbatim>\<open>toString\<close> on the object. An own property of either name shadows the inherited
  method and is not callable, so it is skipped; the inherited \<^verbatim>\<open>valueOf\<close> returns the
  object itself, which is not a primitive; the inherited \<^verbatim>\<open>toString\<close> returns
  \<^verbatim>\<open>[object Object]\<close>. Hence the result for either hint: a \<^verbatim>\<open>TypeError\<close> when the
  object has an own property \<^verbatim>\<open>toString\<close>, the string \<^verbatim>\<open>[object Object]\<close> otherwise.\<close>

definition ToPrimitive_obj :: "(string \<times> jsval) list \<Rightarrow> error + string" where
  "ToPrimitive_obj ps =
     (if ''toString'' \<in> set (map fst ps) then Inl TypeError else Inr ''[object Object]'')"

fun ToBoolean :: "jsval \<Rightarrow> bool" where
  "ToBoolean JUndefined = False"
| "ToBoolean JNull = False"
| "ToBoolean (JBool b) = b"
| "ToBoolean (JNum n) = (case n of NaN \<Rightarrow> False | Zero _ \<Rightarrow> False | _ \<Rightarrow> True)"
| "ToBoolean (JStr s) = (s \<noteq> [])"
| "ToBoolean (JSymbol d) = True"
| "ToBoolean (JBigInt i) = (i \<noteq> 0)"
| "ToBoolean (JObj ps) = True"

fun ToString :: "jsval \<Rightarrow> error + string" where
  "ToString JUndefined = Inr ''undefined''"
| "ToString JNull = Inr ''null''"
| "ToString (JBool b) = Inr (if b then ''true'' else ''false'')"
| "ToString (JNum n) = Inr (Number_toString n)"
| "ToString (JStr s) = Inr s"
| "ToString (JSymbol d) = Inl TypeError"
| "ToString (JBigInt i) = Inr ((if i < 0 then ''-'' else '''') @ show_nat (nat \<bar>i\<bar>))"
| "ToString (JObj ps) = ToPrimitive_obj ps"

fun ToNumber :: "jsval \<Rightarrow> error + jsnum" where
  "ToNumber JUndefined = Inr NaN"
| "ToNumber JNull = Inr (Zero False)"
| "ToNumber (JBool b) = Inr (if b then Dec False [1] 1 else Zero False)"
| "ToNumber (JNum n) = Inr n"
| "ToNumber (JStr s) = Inr (StringToNumber s)"
| "ToNumber (JSymbol d) = Inl TypeError"
| "ToNumber (JBigInt i) = Inl TypeError"
| "ToNumber (JObj ps) =
     (case ToPrimitive_obj ps of Inl e \<Rightarrow> Inl e | Inr s \<Rightarrow> Inr (StringToNumber s))"

text \<open>The global functions \<^verbatim>\<open>isNaN\<close>, \<^verbatim>\<open>parseFloat\<close> and \<^verbatim>\<open>parseInt(\<cdot>, 10)\<close>: the first
  converts its argument with \<^verbatim>\<open>ToNumber\<close>, the other two with \<^verbatim>\<open>ToString\<close>.\<close>

definition isNaN :: "jsval \<Rightarrow> error + bool" where
  "isNaN v = (case ToNumber v of Inl e \<Rightarrow> Inl e | Inr n \<Rightarrow> Inr (n = NaN))"

definition parseFloat :: "jsval \<Rightarrow> error + jsnum" where
  "parseFloat v = (case ToString v of Inl e \<Rightarrow> Inl e | Inr s \<Rightarrow> Inr (parseFloat_str s))"

definition parseInt10 :: "jsval \<Rightarrow> error + jsnum" where
  "parseInt10 v = (case ToString v of Inl e \<Rightarrow> Inl e | Inr s \<Rightarrow> Inr (parseInt_str s))"

text \<open>Strict equality \<^verbatim>\<open>===\<close> on two Numbers: \<open>NaN\<close> equals nothing, the two zeros are
  equal, every other Number equals itself only.\<close>

fun strict_eq_num :: "jsnum \<Rightarrow> jsnum \<Rightarrow> bool" where
  "strict_eq_num NaN y = False"
| "strict_eq_num x NaN = False"
| "strict_eq_num (Zero a) (Zero b) = True"
| "strict_eq_num x y = (x = y)"

subsection \<open>Objects\<close>

text \<open>\<^verbatim>\<open>Object.keys(v)\<close>: a \<^verbatim>\<open>TypeError\<close> for \<^verbatim>\<open>undefined\<close> and \<^verbatim>\<open>null\<close>, the indices
  of a string primitive, the own enumerable property names of an object, and nothing
  for the other primitives.\<close>

fun Object_keys :: "jsval \<Rightarrow> error + string list" where
  "Object_keys JUndefined = Inl TypeError"
| "Object_keys JNull = Inl TypeError"
| "Object_keys (JStr s) = Inr (map show_nat [0..<length s])"
| "Object_keys (JObj ps) = Inr (map fst ps)"
| "Object_keys v = Inr []"

text \<open>The property read \<^verbatim>\<open>v[key]\<close> for an own property name, or for a name that is
  defined neither on the value nor on its prototype (which reads as \<^verbatim>\<open>undefined\<close>).
  The source reads only names that \<^verbatim>\<open>Object.keys\<close> returned, and \<^verbatim>\<open>dataPrefix\<close>.\<close>

fun js_get :: "jsval \<Rightarrow> string \<Rightarrow> jsval" where
  "js_get (JObj ps) key = (case map_of ps key of Some v \<Rightarrow> v | None \<Rightarrow> JUndefined)"
| "js_get (JStr s) key =
     (case find (\<lambda>i. show_nat i = key) [0..<length s] of
        Some i \<Rightarrow> JStr [s ! i]
      | None \<Rightarrow> JUndefined)"
| "js_get v key = JUndefined"

text \<open>The assignment \<^verbatim>\<open>o[key] = v\<close> on an object that was created empty and is written
  by assignment only (\<^verbatim>\<open>acc\<close>, the first argument of \<^verbatim>\<open>Object.assign\<close>, \<^verbatim>\<open>result\<close>).
  The name \<^verbatim>\<open>__proto__\<close> reaches the accessor inherited from \<^verbatim>\<open>Object.prototype\<close>:
  its setter replaces the prototype or does nothing, and no own property is created.
  Every other name creates or overwrites an own property.\<close>

definition js_set :: "(string \<times> jsval) list \<Rightarrow> string \<Rightarrow> jsval \<Rightarrow> (string \<times> jsval) list" where
  "js_set ps key v = (if key = ''__proto__'' then ps else AList.update key v ps)"

text \<open>\<^verbatim>\<open>Object.assign(to, ...sources)\<close>: \<^verbatim>\<open>undefined\<close> and \<^verbatim>\<open>null\<close> sources are skipped;
  every own enumerable property of another source is assigned to \<open>to\<close>.\<close>

definition assign_from :: "(string \<times> jsval) list \<Rightarrow> jsval \<Rightarrow> (string \<times> jsval) list" where
  "assign_from to src =
     (if src = JUndefined \<or> src = JNull then to
      else case Object_keys src of
             Inl e \<Rightarrow> to
           | Inr ks \<Rightarrow> foldl (\<lambda>acc key. js_set acc key (js_get src key)) to ks)"

definition Object_assign :: "(string \<times> jsval) list \<Rightarrow> jsval list \<Rightarrow> (string \<times> jsval) list" where
  "Object_assign to sources = foldl assign_from to sources"

text \<open>The call \<^verbatim>\<open>o.hasOwnProperty(property)\<close>. On an object the method is looked up
  on the object first: an own property named \<^verbatim>\<open>hasOwnProperty\<close> shadows the inherited
  method and is not callable, so the call throws a \<^verbatim>\<open>TypeError\<close>.\<close>

fun hasOwnProperty :: "jsval \<Rightarrow> string \<Rightarrow> error + bool" where
  "hasOwnProperty (JObj ps) property =
     (if ''hasOwnProperty'' \<in> set (map fst ps) then Inl TypeError
      else Inr (property \<in> set (map fst ps)))"
| "hasOwnProperty v property =
     (case Object_keys v of Inl e \<Rightarrow> Inl e | Inr ks \<Rightarrow> Inr (property \<in> set ks))"


text \<open>\<^verbatim>\<open>a || b\<close>.\<close>

definition js_or :: "jsval \<Rightarrow> jsval \<Rightarrow> jsval" where
  "js_or a b = (if ToBoolean a then a else b)"

text \<open>\<^verbatim>\<open>xs.forEach(f)\<close> for a callback that updates a local variable and may throw.\<close>

fun forEach :: "('s \<Rightarrow> 'a \<Rightarrow> error + 's) \<Rightarrow> 'a list \<Rightarrow> 's \<Rightarrow> error + 's" where
  "forEach f [] s = Inr s"
| "forEach f (x # xs) s = (case f s x of Inl e \<Rightarrow> Inl e | Inr s' \<Rightarrow> forEach f xs s')"


section \<open>\<^verbatim>\<open>src/lib/utils.js\<close>\<close>

text \<open>\<^verbatim>\<open>
function isEmpty(variable) {
  return !variable || variable === 'null' || variable === 'undefined';
}
\<close>\<close>

definition isEmpty :: "jsval \<Rightarrow> bool" where
  "isEmpty variable =
     (\<not> ToBoolean variable \<or> variable = JStr ''null'' \<or> variable = JStr ''undefined'')"

text \<open>\<^verbatim>\<open>
function fromString(item) {
  if (item === 'undefined') { return undefined; }
  if (isEmpty(item)) { return null; }
  if (isNaN(item)) { return item; }
  let f = parseFloat(item);
  let i = parseInt(item, 10);
  return i === f ? i : f;
}
\<close>
  A \<^verbatim>\<open>TypeError\<close> thrown by a conversion leaves the function at that point.\<close>

definition fromString :: "jsval \<Rightarrow> error + jsval" where
  "fromString item =
     (if item = JStr ''undefined'' then Inr JUndefined
      else if isEmpty item then Inr JNull
      else case isNaN item of
             Inl e \<Rightarrow> Inl e
           | Inr True \<Rightarrow> Inr item
           | Inr False \<Rightarrow>
               (case parseFloat item of
                  Inl e \<Rightarrow> Inl e
                | Inr f \<Rightarrow>
                    (case parseInt10 item of
                       Inl e \<Rightarrow> Inl e
                     | Inr i \<Rightarrow> Inr (JNum (if strict_eq_num i f then i else f)))))"

text \<open>\<^verbatim>\<open>
function mergeObjects(obj, target) {
  if (!obj || !target) { return {}; }
  const sourceObj = Object.keys(target)
    .filter(key => Boolean(target[key]))
    .reduce((acc, key) => { acc[key] = target[key]; return acc; }, {});
  return Object.assign({}, obj, sourceObj);
}
\<close>\<close>

definition sourceObj :: "jsval \<Rightarrow> string list \<Rightarrow> (string \<times> jsval) list" where
  "sourceObj target keys =
     foldl (\<lambda>acc key. js_set acc key (js_get target key)) []
       (filter (\<lambda>key. ToBoolean (js_get target key)) keys)"

definition mergeObjects :: "jsval \<Rightarrow> jsval \<Rightarrow> error + jsval" where
  "mergeObjects obj target =
     (if \<not> ToBoolean obj \<or> \<not> ToBoolean target then Inr (JObj [])
      else case Object_keys target of
             Inl e \<Rightarrow> Inl e
           | Inr keys \<Rightarrow> Inr (JObj (Object_assign [] [obj, JObj (sourceObj target keys)])))"

section \<open>\<^verbatim>\<open>src/index.js\<close>\<close>

text \<open>
  The module keeps two variables, \<^verbatim>\<open>config\<close> and \<^verbatim>\<open>redisReady\<close>, and talks to the
  redis client through callbacks. The client is a collaborator outside the repository:
  it is a parameter that answers a command \<^verbatim>\<open>redisClient[method](args)\<close> with the pair
  \<^verbatim>\<open>(err, result)\<close> it passes to the callback. Every operation returns the commands it
  issued together with the state its promise ends in. Keys are strings, as the source
  documents them.\<close>

datatype command = Cmd string "jsval list"

type_synonym reply = "jsval \<times> jsval"

type_synonym client = "command \<Rightarrow> reply"

datatype failure = Thrown error | Reason jsval

datatype 'a promise = Pending | Rejected failure | Resolved 'a

record module_state =
  config :: jsval
  redisReady :: bool

text \<open>\<^verbatim>\<open>
let config = {
  host: process.env.REDIS_HOST || 'localhost',
  port: process.env.REDIS_PORT || '6379',
  dataPrefix: 'lb_',
  maxReconnectAttemptTimout: 3000,
  maxReconnectTimeout: 60 * 60 * 1000,
};
let redisReady = false;
\<close>\<close>

definition initial_config :: "jsval \<Rightarrow> jsval \<Rightarrow> jsval" where
  "initial_config env_host env_port =
     JObj [(''host'', js_or env_host (JStr ''localhost'')),
           (''port'', js_or env_port (JStr ''6379'')),
           (''dataPrefix'', JStr ''lb_''),
           (''maxReconnectAttemptTimout'', JNum (Dec False [3] 4)),
           (''maxReconnectTimeout'', JNum (Dec False [3, 6] 7))]"

definition initial_state :: "jsval \<Rightarrow> jsval \<Rightarrow> module_state" where
  "initial_state env_host env_port =
     \<lparr>config = initial_config env_host env_port, redisReady = False\<rparr>"

text \<open>\<^verbatim>\<open>initialize\<close> replaces \<^verbatim>\<open>config\<close> by \<^verbatim>\<open>mergeObjects(config, options)\<close>; the
  \<^verbatim>\<open>ready\<close> event of the client sets \<^verbatim>\<open>redisReady\<close>.\<close>

definition initialize :: "jsval \<Rightarrow> module_state \<Rightarrow> module_state" where
  "initialize options st =
     (case mergeObjects (config st) options of
        Inl e \<Rightarrow> st
      | Inr c \<Rightarrow> st\<lparr>config := c\<rparr>)"

definition on_ready :: "module_state \<Rightarrow> module_state" where
  "on_ready st = st\<lparr>redisReady := True\<rparr>"

text \<open>\<^verbatim>\<open>config.dataPrefix + key\<close> and \<^verbatim>\<open>`${config.dataPrefix}${key}`\<close> for a string
  \<open>key\<close>: the prefix is converted to a string and the key is appended.\<close>

definition prefixed :: "jsval \<Rightarrow> string \<Rightarrow> error + string" where
  "prefixed cfg key =
     (case ToString (js_get cfg ''dataPrefix'') of
        Inl e \<Rightarrow> Inl e
      | Inr p \<Rightarrow> Inr (p @ key))"

text \<open>The callback pattern \<^verbatim>\<open>(err, result) => { if (err) { reject(err); return; }
  resolve(result); }\<close>.\<close>

definition settle :: "reply \<Rightarrow> jsval promise" where
  "settle r = (case r of (err, result) \<Rightarrow>
     if ToBoolean err then Rejected (Reason err) else Resolved result)"

text \<open>\<^verbatim>\<open>p.then(f)\<close>.\<close>

definition promise_then ::
  "command list \<times> 'a promise \<Rightarrow> ('a \<Rightarrow> error + 'b) \<Rightarrow> command list \<times> 'b promise" where
  "promise_then run f =
     (case run of (cmds, p) \<Rightarrow>
        (cmds,
         case p of
           Pending \<Rightarrow> Pending
         | Rejected r \<Rightarrow> Rejected r
         | Resolved x \<Rightarrow> (case f x of Inl e \<Rightarrow> Rejected (Thrown e) | Inr y \<Rightarrow> Resolved y)))"

text \<open>\<^verbatim>\<open>
const _get = (method, key) =>
  new Promise((resolve, reject) => {
    if (!redisReady) { return Promise.reject('Redis is not ready'); }
    redisClient[method](config.dataPrefix + key, (err, result) => {
      if (err) { reject(err); return; }
      resolve(result);
    });
  });
\<close>
  When the client is not ready the executor returns without calling \<^verbatim>\<open>resolve\<close> or
  \<^verbatim>\<open>reject\<close>: the promise stays pending. An exception in the executor rejects it.\<close>

definition private_get ::
  "client \<Rightarrow> module_state \<Rightarrow> string \<Rightarrow> string \<Rightarrow> command list \<times> jsval promise" where
  "private_get cl st method key =
     (if \<not> redisReady st then ([], Pending)
      else case prefixed (config st) key of
             Inl e \<Rightarrow> ([], Rejected (Thrown e))
           | Inr k \<Rightarrow> ([Cmd method [JStr k]], settle (cl (Cmd method [JStr k]))))"



definition getValue :: "client \<Rightarrow> module_state \<Rightarrow> string \<Rightarrow> command list \<times> jsval promise" where
  "getValue cl st key = promise_then (private_get cl st ''get'' key) fromString"



text \<open>\<^verbatim>\<open>
const getObject = key =>
  _get('hgetall', key).then(object => {
    if (isEmpty(object)) { return null; }
    let result = {};
    Object.keys(object).forEach(property => {
      if (object.hasOwnProperty(property)) { result[property] = fromString(object[property]); }
    });
    return result;
  });
\<close>\<close>

definition getObject_step ::
  "jsval \<Rightarrow> (string \<times> jsval) list \<Rightarrow> string \<Rightarrow> error + (string \<times> jsval) list" where
  "getObject_step object result property =
     (case hasOwnProperty object property of
        Inl e \<Rightarrow> Inl e
      | Inr own \<Rightarrow>
          if own then
            (case fromString (js_get object property) of
               Inl e \<Rightarrow> Inl e
             | Inr v \<Rightarrow> Inr (js_set result property v))
          else Inr result)"

definition getObject_then :: "jsval \<Rightarrow> error + jsval" where
  "getObject_then object =
     (if isEmpty object then Inr JNull
      else case Object_keys object of
             Inl e \<Rightarrow> Inl e
           | Inr keys \<Rightarrow>
               (case forEach (getObject_step object) keys [] of
                  Inl e \<Rightarrow> Inl e
                | Inr result \<Rightarrow> Inr (JObj result)))"

definition getObject :: "client \<Rightarrow> module_state \<Rightarrow> string \<Rightarrow> command list \<times> jsval promise" where
  "getObject cl st key = promise_then (private_get cl st ''hgetall'' key) getObject_then"




section \<open>Properties of \<^verbatim>\<open>fromString\<close>\<close>

text \<open>C1 (amended). The number \<open>0\<close> (of either sign) is falsy, is classified as empty
  by \<^verbatim>\<open>isEmpty\<close> and is coerced to \<^verbatim>\<open>null\<close>. The one-character string \<^verbatim>\<open>"0"\<close> is a
  non-empty string, hence truthy: it is not classified as empty, and it is coerced to
  the number \<open>0\<close>.\<close>

theorem fromString_zero:
  "isEmpty (JNum (Zero neg)) \<and> fromString (JNum (Zero neg)) = Inr JNull \<and>
   \<not> isEmpty (JStr ''0'') \<and> fromString (JStr ''0'') = Inr (JNum (Zero False))"
proof -
  have "\<not> isEmpty (JStr ''0'')" and "fromString (JStr ''0'') = Inr (JNum (Zero False))"
    by code_simp+
  then show ?thesis
    by (simp add: fromString_def isEmpty_def)
qed

theorem fromString_zero_witness:
  "isEmpty (JNum (Zero True)) \<and> fromString (JNum (Zero True)) = Inr JNull \<and>
   \<not> isEmpty (JStr ''0'') \<and> fromString (JStr ''0'') = Inr (JNum (Zero False))"
  by (rule fromString_zero [of True])

theorem fromString_string_zero_not_null:
  "fromString (JStr ''0'') \<noteq> Inr JNull"
  by code_simp

text \<open>C2. An input that is not the string \<^verbatim>\<open>"undefined"\<close>, is not classified as empty
  and for which \<^verbatim>\<open>isNaN\<close> answers \<^verbatim>\<open>true\<close> is returned unchanged.\<close>

theorem fromString_not_a_number_unchanged:
  assumes "item \<noteq> JStr ''undefined''" and "\<not> isEmpty item" and "isNaN item = Inr True"
  shows "fromString item = Inr item"
  using assms by (simp add: fromString_def)

theorem fromString_not_a_number_unchanged_witness:
  "JStr ''abc'' \<noteq> JStr ''undefined'' \<and> \<not> isEmpty (JStr ''abc'') \<and>
   isNaN (JStr ''abc'') = Inr True \<and> fromString (JStr ''abc'') = Inr (JStr ''abc'')"
proof -
  have h1: "JStr ''abc'' \<noteq> JStr ''undefined''" by simp
  have h2: "\<not> isEmpty (JStr ''abc'')" by code_simp
  have h3: "isNaN (JStr ''abc'') = Inr True" by code_simp
  show ?thesis
    by (intro conjI h1 h2 h3 fromString_not_a_number_unchanged [OF h1 h2 h3])
qed

text \<open>C6. The string \<^verbatim>\<open>"undefined"\<close> is coerced to \<^verbatim>\<open>undefined\<close>; every other input
  that is falsy or is the string \<^verbatim>\<open>"null"\<close> is coerced to \<^verbatim>\<open>null\<close>.\<close>

theorem fromString_first_two_steps:
  "fromString (JStr ''undefined'') = Inr JUndefined \<and>
   (item \<noteq> JStr ''undefined'' \<and> (\<not> ToBoolean item \<or> item = JStr ''null'') \<longrightarrow>
      fromString item = Inr JNull)"
  by (auto simp: fromString_def isEmpty_def)

theorem fromString_first_two_steps_witness:
  "fromString (JStr ''undefined'') = Inr JUndefined \<and> fromString JNull = Inr JNull"
  using fromString_first_two_steps [of JNull] by simp




section \<open>Properties of \<^verbatim>\<open>mergeObjects\<close>\<close>


lemma in_keys_iff: "k \<in> fst ` set ps \<longleftrightarrow> map_of ps k \<noteq> None"
  by (simp add: map_of_eq_None_iff)






text \<open>C5. When either argument is absent (\<^verbatim>\<open>undefined\<close>) or \<^verbatim>\<open>null\<close>, the result is
  the empty object, whatever the other argument is.\<close>

theorem mergeObjects_null_is_empty:
  assumes "obj = JUndefined \<or> obj = JNull \<or> target = JUndefined \<or> target = JNull"
  shows "mergeObjects obj target = Inr (JObj [])"
  using assms by (auto simp: mergeObjects_def)

theorem mergeObjects_null_is_empty_witness:
  "mergeObjects JNull (JObj [(''bar'', JNum (Dec False [2] 1))]) = Inr (JObj []) \<and>
   mergeObjects (JObj [(''bar'', JNum (Dec False [2] 1))]) JNull = Inr (JObj [])"
  using mergeObjects_null_is_empty [of JNull "JObj [(''bar'', JNum (Dec False [2] 1))]"]
    mergeObjects_null_is_empty [of "JObj [(''bar'', JNum (Dec False [2] 1))]" JNull]
  by simp

section \<open>Totality\<close>







section \<open>Printing and parsing numbers\<close>






































section \<open>The access layer\<close>

text \<open>\<^verbatim>\<open>getValue\<close> resolves to the coerced reply of \<^verbatim>\<open>get\<close> on the prefixed key.\<close>

lemma getValue_coerces:
  assumes "redisReady st" and "prefixed (config st) key = Inr k"
    and "cl (Cmd ''get'' [JStr k]) = (err, raw)" and "\<not> ToBoolean err"
  shows "getValue cl st key =
           ([Cmd ''get'' [JStr k]],
            case fromString raw of Inl e \<Rightarrow> Rejected (Thrown e) | Inr v \<Rightarrow> Resolved v)"
  using assms by (simp add: getValue_def private_get_def promise_then_def settle_def)

text \<open>\<^verbatim>\<open>getObject\<close> on a reply without a field named \<^verbatim>\<open>hasOwnProperty\<close>: every
  field is coerced. (A field named \<^verbatim>\<open>__proto__\<close> cannot be assigned to \<^verbatim>\<open>result\<close>.)\<close>

lemma forEach_getObject_step:
  assumes "''hasOwnProperty'' \<notin> fst ` set ps"
    and "set ks \<subseteq> fst ` set ps"
    and "\<forall>k \<in> set ks. fromString (js_get (JObj ps) k) = Inr (g k)"
  shows "\<exists>rs. forEach (getObject_step (JObj ps)) ks acc = Inr rs \<and>
          (\<forall>k. map_of rs k =
             (if k \<in> set ks \<and> k \<noteq> ''__proto__'' then Some (g k) else map_of acc k))"
  using assms(2,3)
proof (induction ks arbitrary: acc)
  case Nil
  then show ?case by simp
next
  case (Cons x xs)
  from Cons.prems assms(1) have step:
    "getObject_step (JObj ps) acc x = Inr (js_set acc x (g x))"
    by (auto simp: getObject_step_def)
  from Cons.prems have "set xs \<subseteq> fst ` set ps"
    and "\<forall>k \<in> set xs. fromString (js_get (JObj ps) k) = Inr (g k)"
    by auto
  from Cons.IH [OF this, of "js_set acc x (g x)"] step show ?case
    by (auto simp: js_set_def update_conv')
qed

lemma fromString_string_ok: "\<exists>w. fromString (JStr s) = Inr w"
  by (auto simp: fromString_def isNaN_def parseFloat_def parseInt10_def split: bool.splits)

lemma getObject_then_coerces:
  assumes "''hasOwnProperty'' \<notin> fst ` set ps"
    and "\<forall>k \<in> fst ` set ps. fromString (js_get (JObj ps) k) = Inr (g k)"
  shows "\<exists>rs. getObject_then (JObj ps) = Inr (JObj rs) \<and>
          (\<forall>k. map_of rs k =
             (if k \<in> fst ` set ps \<and> k \<noteq> ''__proto__'' then Some (g k) else None))"
proof -
  have "set (map fst ps) \<subseteq> fst ` set ps" by simp
  moreover have "\<forall>k \<in> set (map fst ps). fromString (js_get (JObj ps) k) = Inr (g k)"
    using assms(2) by simp
  ultimately obtain rs where "forEach (getObject_step (JObj ps)) (map fst ps) [] = Inr rs"
    and "\<forall>k. map_of rs k =
       (if k \<in> set (map fst ps) \<and> k \<noteq> ''__proto__'' then Some (g k) else map_of [] k)"
    using forEach_getObject_step [OF assms(1), of "map fst ps" g "[]"] by blast
  then show ?thesis
    by (simp add: getObject_then_def isEmpty_def)
qed

lemma getObject_coerces_string_fields:
  assumes "''hasOwnProperty'' \<notin> fst ` set ps" and "\<forall>v \<in> snd ` set ps. \<exists>s. v = JStr s"
  shows "\<exists>rs. getObject_then (JObj ps) = Inr (JObj rs) \<and>
          (\<forall>k. k \<noteq> ''__proto__'' \<longrightarrow>
             (case map_of ps k of
                None \<Rightarrow> map_of rs k = None
              | Some v \<Rightarrow> \<exists>w. fromString v = Inr w \<and> map_of rs k = Some w))"
proof -
  define g where "g k = (case fromString (js_get (JObj ps) k) of Inr w \<Rightarrow> w | Inl e \<Rightarrow> JNull)" for k
  have ok: "fromString (js_get (JObj ps) k) = Inr (g k)" if "k \<in> fst ` set ps" for k
  proof -
    from that obtain v where v: "map_of ps k = Some v"
      by (meson in_keys_iff option.exhaust)
    then have "v \<in> snd ` set ps"
      by (metis map_of_SomeD image_eqI snd_conv)
    with assms(2) obtain s where "v = JStr s" by blast
    with v fromString_string_ok [of s] show ?thesis
      by (auto simp: g_def)
  qed
  then obtain rs where r: "getObject_then (JObj ps) = Inr (JObj rs)"
    and m: "\<forall>k. map_of rs k =
             (if k \<in> fst ` set ps \<and> k \<noteq> ''__proto__'' then Some (g k) else None)"
    using getObject_then_coerces [OF assms(1), of g] by blast
  have "case map_of ps k of
          None \<Rightarrow> map_of rs k = None
        | Some v \<Rightarrow> \<exists>w. fromString v = Inr w \<and> map_of rs k = Some w"
    if "k \<noteq> ''__proto__''" for k
  proof (cases "map_of ps k")
    case None
    then have "k \<notin> fst ` set ps" by (simp add: in_keys_iff)
    with m None show ?thesis by simp
  next
    case (Some v)
    then have k: "k \<in> fst ` set ps" by (simp add: in_keys_iff)
    from ok [OF k] Some have "fromString v = Inr (g k)" by simp
    with m k that Some show ?thesis by simp
  qed
  with r show ?thesis by blast
qed

text \<open>C9. \<^verbatim>\<open>getObject\<close> is to return the stored hash with every field coerced. For
  a stored hash with a field named \<^verbatim>\<open>hasOwnProperty\<close> the guard
  \<^verbatim>\<open>object.hasOwnProperty(property)\<close> calls the field, a string, and the promise is
  rejected with a \<^verbatim>\<open>TypeError\<close>: no mapping is returned.\<close>

theorem getObject_rejects_hasOwnProperty_field:
  "snd (getObject (\<lambda>c. (JNull, JObj [(''hasOwnProperty'', JStr ''1'')]))
         (on_ready (initial_state JUndefined JUndefined)) ''k'') = Rejected (Thrown TypeError)"
  by code_simp





end
